theory Spec2Isabelle
  imports Main "HOL-Library.Word"
begin

unbundle bit_operations_syntax

section \<open>Debugger.c: the two anti-debugging primitives\<close>

text \<open>
  The file holds two C functions, \<^verbatim>\<open>disable_gdb\<close> (an inline-assembly supervisor
  call) and \<^verbatim>\<open>isBeingDebugged_sysctl\<close> (a \<^verbatim>\<open>sysctl\<close> query). Both talk to the
  operating system, which is not part of the repository: the kernel is a parameter of the
  model (a record of functions over an abstract OS state \<open>'os\<close>), and so are the constants
  of the system headers. Every call that leaves the process is appended to a log, so that
  what a function asks of the OS can be stated.
\<close>

subsection \<open>Data of the system headers\<close>

type_synonym c_int = "32 word"
type_synonym size_t = "64 word"

text \<open>
  \<^verbatim>\<open>struct kinfo_proc\<close> of \<^verbatim>\<open>sys/sysctl.h\<close>, with the one path the code
  reads and writes: \<^verbatim>\<open>info.kp_proc.p_flag\<close>.
\<close>

record extern_proc =
  p_flag :: c_int

record kinfo_proc =
  kp_proc :: extern_proc

text \<open>
  The macros the code names and does not define (\<^verbatim>\<open>sys/sysctl.h\<close>,
  \<^verbatim>\<open>sys/proc.h\<close>), and \<^verbatim>\<open>sizeof(struct kinfo_proc)\<close>.
\<close>

record sys_headers =
  CTL_KERN :: c_int
  KERN_PROC :: c_int
  KERN_PROC_PID :: c_int
  P_TRACED :: c_int
  sizeof_kinfo_proc :: size_t

text \<open>
  The six arguments of \<^verbatim>\<open>sysctl(name, namelen, oldp, oldlenp, newp, newlen)\<close>. The two
  pointers to locals are passed by value and handed back in the result; a null
  \<^verbatim>\<open>newp\<close> is \<open>None\<close>.
\<close>

record sysctl_args =
  name :: "c_int list"
  namelen :: "32 word"
  oldp :: kinfo_proc
  oldlenp :: size_t
  newp :: "8 word list option"
  newlen :: size_t

record sysctl_result =
  ret :: c_int
  oldp_out :: kinfo_proc
  oldlenp_out :: size_t

subsection \<open>Registers, the kernel and the log of OS calls\<close>

text \<open>The five general-purpose registers the inline assembly names.\<close>

record cpu =
  x0 :: "64 word"
  x1 :: "64 word"
  x2 :: "64 word"
  x3 :: "64 word"
  x16 :: "64 word"

datatype os_call =
  Call_getpid
  | Call_sysctl sysctl_args
  | Call_svc "16 word" cpu

text \<open>
  The operating system: \<^verbatim>\<open>getpid\<close> reads the OS state, \<^verbatim>\<open>sysctl\<close> answers a
  request and may change the state, and \<open>svc\<close> is what the kernel does at a supervisor
  call with the given immediate and registers, returning the registers it hands back.
\<close>

record 'os kernel =
  getpid :: "'os \<Rightarrow> c_int"
  sysctl :: "'os \<Rightarrow> sysctl_args \<Rightarrow> sysctl_result \<times> 'os"
  svc :: "'os \<Rightarrow> 16 word \<Rightarrow> cpu \<Rightarrow> cpu \<times> 'os"

record 'os world =
  os :: 'os
  calls :: "os_call list"

subsection \<open>\<^verbatim>\<open>isBeingDebugged_sysctl\<close>\<close>

text \<open>
  The arguments of the one \<^verbatim>\<open>sysctl\<close> call. \<open>info0\<close> is the content of the
  uninitialised local \<^verbatim>\<open>info\<close> when the function is entered.
\<close>

definition isBeingDebugged_sysctl_args ::
  "sys_headers \<Rightarrow> 'os kernel \<Rightarrow> kinfo_proc \<Rightarrow> 'os \<Rightarrow> sysctl_args" where
  "isBeingDebugged_sysctl_args h k info0 s =
     (let size = sizeof_kinfo_proc h;
          info = info0\<lparr>kp_proc := (kp_proc info0)\<lparr>p_flag := 0\<rparr>\<rparr>;
          name = [CTL_KERN h, KERN_PROC h, KERN_PROC_PID h, getpid k s]
      in \<lparr>name = name, namelen = 4, oldp = info, oldlenp = size,
          newp = None, newlen = 0\<rparr>)"

definition isBeingDebugged_sysctl ::
  "sys_headers \<Rightarrow> 'os kernel \<Rightarrow> kinfo_proc \<Rightarrow> 'os world \<Rightarrow> bool \<times> 'os world" where
  "isBeingDebugged_sysctl h k info0 w =
     (let a = isBeingDebugged_sysctl_args h k info0 (os w);
          (r, s') = sysctl k (os w) a;
          info = oldp_out r;
          w' = \<lparr>os = s', calls = calls w @ [Call_getpid, Call_sysctl a]\<rparr>
      in if ret r \<noteq> 0 then (False, w')
         else ((p_flag (kp_proc info) AND P_TRACED h) \<noteq> 0, w'))"

text \<open>
  The variant that C9 compares with: the same function with the early
  \<^verbatim>\<open>return false\<close> of the failure branch taken out, so that it always falls through to
  the test of the flag.
\<close>

definition isBeingDebugged_sysctl_fallthrough ::
  "sys_headers \<Rightarrow> 'os kernel \<Rightarrow> kinfo_proc \<Rightarrow> 'os world \<Rightarrow> bool \<times> 'os world" where
  "isBeingDebugged_sysctl_fallthrough h k info0 w =
     (let a = isBeingDebugged_sysctl_args h k info0 (os w);
          (r, s') = sysctl k (os w) a;
          info = oldp_out r;
          w' = \<lparr>os = s', calls = calls w @ [Call_getpid, Call_sysctl a]\<rparr>
      in ((p_flag (kp_proc info) AND P_TRACED h) \<noteq> 0, w'))"

subsection \<open>\<^verbatim>\<open>disable_gdb\<close>\<close>

text \<open>
  The inline assembly is a list of AArch64 instructions run on the registers and the
  world. \<^verbatim>\<open>mov\<close> writes an immediate to a register. \<^verbatim>\<open>svc\<close> traps into the
  kernel: the call is logged with its immediate and the registers at the trap, and
  execution goes on with the registers and the OS state the kernel hands back.
\<close>

datatype reg = X0 | X1 | X2 | X3 | X16

datatype instr = MOV reg "64 word" | SVC "16 word"

fun write_reg :: "reg \<Rightarrow> 64 word \<Rightarrow> cpu \<Rightarrow> cpu" where
  "write_reg X0 v c = c\<lparr>x0 := v\<rparr>"
| "write_reg X1 v c = c\<lparr>x1 := v\<rparr>"
| "write_reg X2 v c = c\<lparr>x2 := v\<rparr>"
| "write_reg X3 v c = c\<lparr>x3 := v\<rparr>"
| "write_reg X16 v c = c\<lparr>x16 := v\<rparr>"

fun exec_instr :: "'os kernel \<Rightarrow> instr \<Rightarrow> cpu \<times> 'os world \<Rightarrow> cpu \<times> 'os world" where
  "exec_instr k (MOV r v) (c, w) = (write_reg r v c, w)"
| "exec_instr k (SVC i) (c, w) =
     (let (c', s') = svc k (os w) i c
      in (c', \<lparr>os = s', calls = calls w @ [Call_svc i c]\<rparr>))"

fun exec_asm :: "'os kernel \<Rightarrow> instr list \<Rightarrow> cpu \<times> 'os world \<Rightarrow> cpu \<times> 'os world" where
  "exec_asm k [] m = m"
| "exec_asm k (i # rest) m = exec_asm k rest (exec_instr k i m)"

text \<open>
  \<open>DEBUG\<close> is the value of the macro in the condition of \<^verbatim>\<open>#if DEBUG\<close> (0 when the
  macro is not defined). When it is not zero the \<^verbatim>\<open>return\<close> is compiled in, before the
  assembly.
\<close>

definition disable_gdb :: "int \<Rightarrow> 'os kernel \<Rightarrow> cpu \<times> 'os world \<Rightarrow> cpu \<times> 'os world" where
  "disable_gdb DEBUG k m =
     (if DEBUG \<noteq> 0 then m
      else exec_asm k
        [MOV X0 31, MOV X1 0, MOV X2 0, MOV X3 0, MOV X16 26, SVC 0x80] m)"

text \<open>
  The supervisor call as the source's comments read it: system call 26
  (\<^verbatim>\<open>ptrace\<close>) in \<^verbatim>\<open>x16\<close>, with the arguments \<^verbatim>\<open>PT_DENY_ATTACH\<close> (31), 0, 0, 0.
\<close>

definition ptrace_deny_attach_regs :: cpu where
  "ptrace_deny_attach_regs = \<lparr>x0 = 31, x1 = 0, x2 = 0, x3 = 0, x16 = 26\<rparr>"

definition ptrace_deny_attach :: os_call where
  "ptrace_deny_attach = Call_svc 0x80 ptrace_deny_attach_regs"

subsection \<open>\<^verbatim>\<open>disable_gdb\<close> on a kernel that may not return\<close>

text \<open>
  \<open>svc\<close> of the kernel record always hands the registers back. A kernel can also end
  the process at a supervisor call and never return from it. A trap handler is what the
  kernel does at the call, with \<open>None\<close> for the process ended there; the same
  instructions are run on it, and a run that was ended has no state to return.
\<close>

type_synonym 'os trap_handler = "'os \<Rightarrow> 16 word \<Rightarrow> cpu \<Rightarrow> (cpu \<times> 'os) option"

fun exec_instr_partial ::
  "'os trap_handler \<Rightarrow> instr \<Rightarrow> cpu \<times> 'os world \<Rightarrow> (cpu \<times> 'os world) option" where
  "exec_instr_partial t (MOV r v) (c, w) = Some (write_reg r v c, w)"
| "exec_instr_partial t (SVC i) (c, w) =
     (case t (os w) i c of
        None \<Rightarrow> None
      | Some (c', s') \<Rightarrow> Some (c', \<lparr>os = s', calls = calls w @ [Call_svc i c]\<rparr>))"

fun exec_asm_partial ::
  "'os trap_handler \<Rightarrow> instr list \<Rightarrow> cpu \<times> 'os world \<Rightarrow> (cpu \<times> 'os world) option" where
  "exec_asm_partial t [] m = Some m"
| "exec_asm_partial t (i # rest) m =
     (case exec_instr_partial t i m of
        None \<Rightarrow> None
      | Some m' \<Rightarrow> exec_asm_partial t rest m')"

definition disable_gdb_partial ::
  "int \<Rightarrow> 'os trap_handler \<Rightarrow> cpu \<times> 'os world \<Rightarrow> (cpu \<times> 'os world) option" where
  "disable_gdb_partial DEBUG t m =
     (if DEBUG \<noteq> 0 then Some m
      else exec_asm_partial t
        [MOV X0 31, MOV X1 0, MOV X2 0, MOV X3 0, MOV X16 26, SVC 0x80] m)"


subsection \<open>Invocations of \<^verbatim>\<open>isBeingDebugged_sysctl\<close> running concurrently\<close>

text \<open>
  An invocation meets the world twice, at \<^verbatim>\<open>getpid()\<close> and at \<^verbatim>\<open>sysctl(...)\<close>;
  the rest of its work is on its own locals. A thread is therefore at the function's
  entry (with the content of its uninitialised buffer), or between the two calls (with
  the arguments it has built for \<^verbatim>\<open>sysctl\<close>), or it has returned. A step of a thread
  runs it up to and including its next call.
\<close>

datatype thread =
  At_entry kinfo_proc
  | At_sysctl sysctl_args
  | Returned bool

fun thread_step :: "sys_headers \<Rightarrow> 'os kernel \<Rightarrow> thread \<Rightarrow> 'os world \<Rightarrow> thread \<times> 'os world" where
  "thread_step h k (At_entry info0) w =
     (At_sysctl (isBeingDebugged_sysctl_args h k info0 (os w)),
      \<lparr>os = os w, calls = calls w @ [Call_getpid]\<rparr>)"
| "thread_step h k (At_sysctl a) w =
     (let (r, s') = sysctl k (os w) a;
          info = oldp_out r;
          w' = \<lparr>os = s', calls = calls w @ [Call_sysctl a]\<rparr>
      in if ret r \<noteq> 0 then (Returned False, w')
         else (Returned ((p_flag (kp_proc info) AND P_TRACED h) \<noteq> 0), w'))"
| "thread_step h k (Returned b) w = (Returned b, w)"

text \<open>
  A schedule is the list of the thread numbers in the order in which they take their
  steps; a number that names no thread is skipped.
\<close>

fun run_threads ::
  "sys_headers \<Rightarrow> 'os kernel \<Rightarrow> nat list \<Rightarrow> thread list \<times> 'os world \<Rightarrow> thread list \<times> 'os world" where
  "run_threads h k [] tw = tw"
| "run_threads h k (i # sched) (ts, w) =
     (if i < length ts
      then (let (t', w') = thread_step h k (ts ! i) w
            in run_threads h k sched (ts[i := t'], w'))
      else run_threads h k sched (ts, w))"

text \<open>
  What the OS documents for \<^verbatim>\<open>sysctl\<close> and the model cannot know of its kernel
  parameter: a call with a null \<^verbatim>\<open>newp\<close> and a zero \<^verbatim>\<open>newlen\<close> sets nothing.
\<close>

definition sysctl_read_only :: "'os kernel \<Rightarrow> bool" where
  "sysctl_read_only k \<longleftrightarrow>
     (\<forall>s a. newp a = None \<and> newlen a = 0 \<longrightarrow> snd (sysctl k s a) = s)"

subsection \<open>Concrete platforms for evaluation\<close>

text \<open>The values of Darwin's headers on a 64-bit target.\<close>

definition darwin_headers :: sys_headers where
  "darwin_headers =
     \<lparr>CTL_KERN = 1, KERN_PROC = 14, KERN_PROC_PID = 1, P_TRACED = 0x800,
      sizeof_kinfo_proc = 648\<rparr>"

text \<open>
  Two kernels over the OS state \<open>c_int\<close> (the process's flag word). The first answers
  the query with the flag word; the second refuses every \<^verbatim>\<open>sysctl\<close> with \<open>-1\<close> and
  leaves the buffer as it was handed in. Neither changes the OS state, and both hand the
  registers back unchanged at a supervisor call.
\<close>

definition answering_kernel :: "c_int kernel" where
  "answering_kernel =
     \<lparr>getpid = (\<lambda>s. 4242),
      sysctl = (\<lambda>s a. (\<lparr>ret = 0, oldp_out = \<lparr>kp_proc = \<lparr>p_flag = s\<rparr>\<rparr>,
                            oldlenp_out = oldlenp a\<rparr>, s)),
      svc = (\<lambda>s i c. (c, s))\<rparr>"

definition failing_kernel :: "c_int kernel" where
  "failing_kernel =
     \<lparr>getpid = (\<lambda>s. 4242),
      sysctl = (\<lambda>s a. (\<lparr>ret = - 1, oldp_out = oldp a, oldlenp_out = oldlenp a\<rparr>, s)),
      svc = (\<lambda>s i c. (c, s))\<rparr>"

text \<open>A kernel that reports success and writes nothing into the buffer.\<close>

definition silent_kernel :: "c_int kernel" where
  "silent_kernel =
     \<lparr>getpid = (\<lambda>s. 4242),
      sysctl = (\<lambda>s a. (\<lparr>ret = 0, oldp_out = oldp a, oldlenp_out = 0\<rparr>, s)),
      svc = (\<lambda>s i c. (c, s))\<rparr>"



definition cpu0 :: cpu where
  "cpu0 = \<lparr>x0 = 7, x1 = 7, x2 = 7, x3 = 7, x16 = 7\<rparr>"

definition garbage_info :: kinfo_proc where
  "garbage_info = \<lparr>kp_proc = \<lparr>p_flag = 0xFFFFFFFF\<rparr>\<rparr>"

definition world0 :: "c_int \<Rightarrow> c_int world" where
  "world0 s = \<lparr>os = s, calls = []\<rparr>"

section \<open>Properties of \<^verbatim>\<open>isBeingDebugged_sysctl\<close>\<close>

lemma isBeingDebugged_sysctl_result:
  "fst (isBeingDebugged_sysctl h k info0 w) =
     (let r = fst (sysctl k (os w) (isBeingDebugged_sysctl_args h k info0 (os w)))
      in ret r = 0 \<and> (p_flag (kp_proc (oldp_out r)) AND P_TRACED h) \<noteq> 0)"
  by (simp add: isBeingDebugged_sysctl_def Let_def split: prod.split)

text \<open>
  C1. When the \<^verbatim>\<open>sysctl\<close> call returns a nonzero status, the function returns
  \<^verbatim>\<open>false\<close>. The function's result is a plain boolean: there is no error value
  that it could propagate.
\<close>

theorem C1_sysctl_failure_returns_false:
  assumes "ret (fst (sysctl k (os w) (isBeingDebugged_sysctl_args h k info0 (os w)))) \<noteq> 0"
  shows "fst (isBeingDebugged_sysctl h k info0 w) = False"
  using assms by (simp add: isBeingDebugged_sysctl_result Let_def)

theorem C1_sysctl_failure_witness:
  "ret (fst (sysctl failing_kernel (os (world0 0x800))
        (isBeingDebugged_sysctl_args darwin_headers failing_kernel garbage_info
           (os (world0 0x800))))) \<noteq> 0
   \<and> fst (isBeingDebugged_sysctl darwin_headers failing_kernel garbage_info (world0 0x800))
       = False"
proof -
  have f: "ret (fst (sysctl failing_kernel (os (world0 0x800))
        (isBeingDebugged_sysctl_args darwin_headers failing_kernel garbage_info
           (os (world0 0x800))))) \<noteq> 0"
    by (simp add: failing_kernel_def)
  show ?thesis by (rule conjI [OF f C1_sysctl_failure_returns_false [OF f]])
qed


lemma P_TRACED_darwin_bit:
  "(f AND P_TRACED darwin_headers) \<noteq> 0 \<longleftrightarrow> bit f 11"
  using and_exp_eq_0_iff_not_bit [of f 11] by (simp add: darwin_headers_def)

text \<open>
  C2. When the \<^verbatim>\<open>sysctl\<close> call returns zero, the function returns \<^verbatim>\<open>true\<close> if and only
  if \<^verbatim>\<open>P_TRACED\<close> is set in \<^verbatim>\<open>kp_proc.p_flag\<close> of the buffer as the call left it.
\<close>

theorem C2_success_returns_traced_bit:
  assumes "ret (fst (sysctl k (os w) (isBeingDebugged_sysctl_args h k info0 (os w)))) = 0"
  shows "fst (isBeingDebugged_sysctl h k info0 w) \<longleftrightarrow>
         (p_flag (kp_proc (oldp_out
            (fst (sysctl k (os w) (isBeingDebugged_sysctl_args h k info0 (os w))))))
          AND P_TRACED h) \<noteq> 0"
  using assms by (simp add: isBeingDebugged_sysctl_result Let_def)

theorem C2_success_witness:
  "ret (fst (sysctl answering_kernel (os (world0 0x800))
        (isBeingDebugged_sysctl_args darwin_headers answering_kernel garbage_info
           (os (world0 0x800))))) = 0
   \<and> fst (isBeingDebugged_sysctl darwin_headers answering_kernel garbage_info (world0 0x800))"
proof -
  have ok: "ret (fst (sysctl answering_kernel (os (world0 0x800))
        (isBeingDebugged_sysctl_args darwin_headers answering_kernel garbage_info
           (os (world0 0x800))))) = 0"
    by (simp add: answering_kernel_def)
  have "fst (isBeingDebugged_sysctl darwin_headers answering_kernel garbage_info (world0 0x800))"
    using C2_success_returns_traced_bit [OF ok]
    by (simp add: answering_kernel_def world0_def darwin_headers_def)
  with ok show ?thesis by (rule conjI)
qed

text \<open>
  The other direction at a concrete input: a flag word without \<^verbatim>\<open>P_TRACED\<close>
  (\<open>0x4004\<close>) gives \<^verbatim>\<open>false\<close>, although the buffer held \<open>0xFFFFFFFF\<close> at entry.
\<close>

lemma isBeingDebugged_sysctl_untraced_example:
  "fst (isBeingDebugged_sysctl darwin_headers answering_kernel garbage_info (world0 0x4004))
     = False"
  by (simp add: isBeingDebugged_sysctl_result answering_kernel_def world0_def
      darwin_headers_def)

lemma isBeingDebugged_sysctl_world:
  "snd (isBeingDebugged_sysctl h k info0 w) =
     \<lparr>os = snd (sysctl k (os w) (isBeingDebugged_sysctl_args h k info0 (os w))),
      calls = calls w @
        [Call_getpid, Call_sysctl (isBeingDebugged_sysctl_args h k info0 (os w))]\<rparr>"
  by (simp add: isBeingDebugged_sysctl_def Let_def split: prod.split)

text \<open>
  C5. Every call hands \<^verbatim>\<open>sysctl\<close> the four-integer name \<^verbatim>\<open>CTL_KERN\<close>,
  \<^verbatim>\<open>KERN_PROC\<close>, \<^verbatim>\<open>KERN_PROC_PID\<close>, \<^verbatim>\<open>getpid()\<close>, in this order and with length 4.
  The calls the function adds to the log are \<^verbatim>\<open>getpid\<close> and this one
  \<^verbatim>\<open>sysctl\<close>: the general information interface, and no supervisor call of the
  tracing facility.
\<close>

theorem C5_query_descriptor:
  "calls (snd (isBeingDebugged_sysctl h k info0 w)) =
     calls w @ [Call_getpid, Call_sysctl (isBeingDebugged_sysctl_args h k info0 (os w))]
   \<and> name (isBeingDebugged_sysctl_args h k info0 (os w)) =
       [CTL_KERN h, KERN_PROC h, KERN_PROC_PID h, getpid k (os w)]
   \<and> namelen (isBeingDebugged_sysctl_args h k info0 (os w)) = 4"
  by (simp add: isBeingDebugged_sysctl_world isBeingDebugged_sysctl_args_def)

text \<open>
  C6. Whatever the uninitialised buffer held, \<^verbatim>\<open>kp_proc.p_flag\<close> is zero in the
  buffer that is handed to \<^verbatim>\<open>sysctl\<close>; and when the call leaves that field as it
  was handed in (the buffer filled in part or not at all), the function returns
  \<^verbatim>\<open>false\<close>, whatever the call returned: the flag that is tested is the zero, never the
  old content.
\<close>

theorem C6_flag_zeroed_before_query:
  "p_flag (kp_proc (oldp (isBeingDebugged_sysctl_args h k info0 (os w)))) = 0
   \<and> (p_flag (kp_proc (oldp_out
          (fst (sysctl k (os w) (isBeingDebugged_sysctl_args h k info0 (os w)))))) =
        p_flag (kp_proc (oldp (isBeingDebugged_sysctl_args h k info0 (os w))))
      \<longrightarrow> fst (isBeingDebugged_sysctl h k info0 w) = False)"
  by (simp add: isBeingDebugged_sysctl_result isBeingDebugged_sysctl_args_def Let_def)

theorem C6_flag_zeroed_witness:
  "p_flag (kp_proc garbage_info) = 0xFFFFFFFF
   \<and> p_flag (kp_proc (oldp (isBeingDebugged_sysctl_args darwin_headers silent_kernel
          garbage_info (os (world0 0x800))))) = 0
   \<and> ret (fst (sysctl silent_kernel (os (world0 0x800))
          (isBeingDebugged_sysctl_args darwin_headers silent_kernel garbage_info
             (os (world0 0x800))))) = 0
   \<and> fst (isBeingDebugged_sysctl darwin_headers silent_kernel garbage_info (world0 0x800))
       = False"
proof -
  note c6 = C6_flag_zeroed_before_query
    [of darwin_headers silent_kernel garbage_info "world0 0x800"]
  have kept: "p_flag (kp_proc (oldp_out
          (fst (sysctl silent_kernel (os (world0 0x800))
             (isBeingDebugged_sysctl_args darwin_headers silent_kernel garbage_info
                (os (world0 0x800))))))) =
        p_flag (kp_proc (oldp (isBeingDebugged_sysctl_args darwin_headers silent_kernel
          garbage_info (os (world0 0x800)))))"
    by (simp add: silent_kernel_def)
  have g: "p_flag (kp_proc garbage_info) = 0xFFFFFFFF"
    by (simp add: garbage_info_def)
  have r: "ret (fst (sysctl silent_kernel (os (world0 0x800))
          (isBeingDebugged_sysctl_args darwin_headers silent_kernel garbage_info
             (os (world0 0x800))))) = 0"
    by (simp add: silent_kernel_def)
  from c6 kept have "fst (isBeingDebugged_sysctl darwin_headers silent_kernel garbage_info
      (world0 0x800)) = False"
    by blast
  with g c6 r show ?thesis by blast
qed

lemma isBeingDebugged_sysctl_fallthrough_result:
  "fst (isBeingDebugged_sysctl_fallthrough h k info0 w) =
     ((p_flag (kp_proc (oldp_out
         (fst (sysctl k (os w) (isBeingDebugged_sysctl_args h k info0 (os w))))))
       AND P_TRACED h) \<noteq> 0)"
  by (simp add: isBeingDebugged_sysctl_fallthrough_def Let_def split: prod.split)

lemma isBeingDebugged_sysctl_fallthrough_world:
  "snd (isBeingDebugged_sysctl_fallthrough h k info0 w) =
     snd (isBeingDebugged_sysctl h k info0 w)"
  by (simp add: isBeingDebugged_sysctl_fallthrough_def isBeingDebugged_sysctl_def Let_def
      split: prod.split)

text \<open>
  C9. On an execution where \<^verbatim>\<open>sysctl\<close> fails and hands the buffer back as it
  received it, the function and the variant without the early return give the same
  result and the same world, and the result is \<^verbatim>\<open>false\<close>: the variant tests
  \<^verbatim>\<open>P_TRACED\<close> in the flag word that was set to zero.
\<close>

theorem C9_early_return_redundant:
  assumes "ret (fst (sysctl k (os w) (isBeingDebugged_sysctl_args h k info0 (os w)))) \<noteq> 0"
    and "oldp_out (fst (sysctl k (os w) (isBeingDebugged_sysctl_args h k info0 (os w)))) =
         oldp (isBeingDebugged_sysctl_args h k info0 (os w))"
  shows "isBeingDebugged_sysctl h k info0 w = isBeingDebugged_sysctl_fallthrough h k info0 w
         \<and> fst (isBeingDebugged_sysctl_fallthrough h k info0 w) = False"
proof -
  have zero: "p_flag (kp_proc (oldp (isBeingDebugged_sysctl_args h k info0 (os w)))) = 0"
    by (simp add: isBeingDebugged_sysctl_args_def)
  have v: "fst (isBeingDebugged_sysctl_fallthrough h k info0 w) = False"
    by (simp add: isBeingDebugged_sysctl_fallthrough_result assms(2) zero)
  have f: "fst (isBeingDebugged_sysctl h k info0 w) = False"
    using assms(1) by (simp add: isBeingDebugged_sysctl_result Let_def)
  have "isBeingDebugged_sysctl h k info0 w = isBeingDebugged_sysctl_fallthrough h k info0 w"
    by (rule prod_eqI) (simp_all add: v f isBeingDebugged_sysctl_fallthrough_world)
  with v show ?thesis by simp
qed

theorem C9_early_return_witness:
  "ret (fst (sysctl failing_kernel (os (world0 0x800))
        (isBeingDebugged_sysctl_args darwin_headers failing_kernel garbage_info
           (os (world0 0x800))))) \<noteq> 0
   \<and> oldp_out (fst (sysctl failing_kernel (os (world0 0x800))
        (isBeingDebugged_sysctl_args darwin_headers failing_kernel garbage_info
           (os (world0 0x800))))) =
      oldp (isBeingDebugged_sysctl_args darwin_headers failing_kernel garbage_info
           (os (world0 0x800)))
   \<and> isBeingDebugged_sysctl darwin_headers failing_kernel garbage_info (world0 0x800) =
      isBeingDebugged_sysctl_fallthrough darwin_headers failing_kernel garbage_info
        (world0 0x800)
   \<and> fst (isBeingDebugged_sysctl_fallthrough darwin_headers failing_kernel garbage_info
        (world0 0x800)) = False"
proof -
  have f: "ret (fst (sysctl failing_kernel (os (world0 0x800))
        (isBeingDebugged_sysctl_args darwin_headers failing_kernel garbage_info
           (os (world0 0x800))))) \<noteq> 0"
    by (simp add: failing_kernel_def)
  have b: "oldp_out (fst (sysctl failing_kernel (os (world0 0x800))
        (isBeingDebugged_sysctl_args darwin_headers failing_kernel garbage_info
           (os (world0 0x800))))) =
      oldp (isBeingDebugged_sysctl_args darwin_headers failing_kernel garbage_info
           (os (world0 0x800)))"
    by (simp add: failing_kernel_def)
  from C9_early_return_redundant [OF f b] f b show ?thesis by blast
qed

text \<open>
  C10. Two invocations (any two kernels, OS states and buffer contents) in which
  \<^verbatim>\<open>sysctl\<close> returns the same status and, when that status is zero, leaves a flag
  word with the same \<^verbatim>\<open>P_TRACED\<close> part, return the same boolean. Equal flag words are
  the special case the claim names.
\<close>

theorem C10_result_determined_by_os_response:
  assumes "ret (fst (sysctl k1 (os w1) (isBeingDebugged_sysctl_args h k1 g1 (os w1)))) =
           ret (fst (sysctl k2 (os w2) (isBeingDebugged_sysctl_args h k2 g2 (os w2))))"
    and "ret (fst (sysctl k1 (os w1) (isBeingDebugged_sysctl_args h k1 g1 (os w1)))) = 0 \<Longrightarrow>
         p_flag (kp_proc (oldp_out
           (fst (sysctl k1 (os w1) (isBeingDebugged_sysctl_args h k1 g1 (os w1))))))
           AND P_TRACED h =
         p_flag (kp_proc (oldp_out
           (fst (sysctl k2 (os w2) (isBeingDebugged_sysctl_args h k2 g2 (os w2))))))
           AND P_TRACED h"
  shows "fst (isBeingDebugged_sysctl h k1 g1 w1) = fst (isBeingDebugged_sysctl h k2 g2 w2)"
  using assms by (auto simp add: isBeingDebugged_sysctl_result Let_def)

theorem C10_result_determined_witness:
  "ret (fst (sysctl answering_kernel (os (world0 0x800))
        (isBeingDebugged_sysctl_args darwin_headers answering_kernel garbage_info
           (os (world0 0x800))))) =
   ret (fst (sysctl answering_kernel (os (world0 0x803))
        (isBeingDebugged_sysctl_args darwin_headers answering_kernel
           \<lparr>kp_proc = \<lparr>p_flag = 0\<rparr>\<rparr> (os (world0 0x803)))))
   \<and> fst (isBeingDebugged_sysctl darwin_headers answering_kernel garbage_info
          (world0 0x800)) =
      fst (isBeingDebugged_sysctl darwin_headers answering_kernel
          \<lparr>kp_proc = \<lparr>p_flag = 0\<rparr>\<rparr> (world0 0x803))"
proof -
  have r: "ret (fst (sysctl answering_kernel (os (world0 0x800))
        (isBeingDebugged_sysctl_args darwin_headers answering_kernel garbage_info
           (os (world0 0x800))))) =
   ret (fst (sysctl answering_kernel (os (world0 0x803))
        (isBeingDebugged_sysctl_args darwin_headers answering_kernel
           \<lparr>kp_proc = \<lparr>p_flag = 0\<rparr>\<rparr> (os (world0 0x803)))))"
    by (simp add: answering_kernel_def)
  have m: "p_flag (kp_proc (oldp_out
           (fst (sysctl answering_kernel (os (world0 0x800))
              (isBeingDebugged_sysctl_args darwin_headers answering_kernel garbage_info
                 (os (world0 0x800)))))))
           AND P_TRACED darwin_headers =
         p_flag (kp_proc (oldp_out
           (fst (sysctl answering_kernel (os (world0 0x803))
              (isBeingDebugged_sysctl_args darwin_headers answering_kernel
                 \<lparr>kp_proc = \<lparr>p_flag = 0\<rparr>\<rparr> (os (world0 0x803)))))))
           AND P_TRACED darwin_headers"
    by (simp add: answering_kernel_def world0_def darwin_headers_def)
  show ?thesis
    by (rule conjI [OF r C10_result_determined_by_os_response [OF r m]])
qed

section \<open>Properties of \<^verbatim>\<open>disable_gdb\<close>\<close>

lemma disable_gdb_debug: "DEBUG \<noteq> 0 \<Longrightarrow> disable_gdb DEBUG k m = m"
  by (simp add: disable_gdb_def)

lemma cpu_all_written:
  "c\<lparr>x0 := a0, x1 := a1, x2 := a2, x3 := a3, x16 := n\<rparr> =
     \<lparr>x0 = a0, x1 = a1, x2 = a2, x3 = a3, x16 = n\<rparr>"
  by (cases c) simp

lemma disable_gdb_release:
  "disable_gdb 0 k (c, w) =
     (fst (svc k (os w) 0x80 ptrace_deny_attach_regs),
      \<lparr>os = snd (svc k (os w) 0x80 ptrace_deny_attach_regs),
       calls = calls w @ [ptrace_deny_attach]\<rparr>)"
  by (simp add: disable_gdb_def ptrace_deny_attach_def ptrace_deny_attach_regs_def
      cpu_all_written split: prod.split)

lemma disable_gdb_calls:
  "calls (snd (disable_gdb DEBUG k m)) =
     calls (snd m) @ (if DEBUG \<noteq> 0 then [] else [ptrace_deny_attach])"
  by (cases m) (simp add: disable_gdb_debug disable_gdb_release)

lemma disable_gdb_os:
  "os (snd (disable_gdb 0 k m)) = snd (svc k (os (snd m)) 0x80 ptrace_deny_attach_regs)"
  by (cases m) (simp add: disable_gdb_release)

text \<open>
  C3. The function issues the supervisor call exactly when \<open>DEBUG\<close> is false. With
  \<open>DEBUG\<close> true it changes nothing: registers, OS state and log are as before, so no
  request reaches the OS. With \<open>DEBUG\<close> false the one request it adds to the log is the
  \<^verbatim>\<open>ptrace(PT_DENY_ATTACH, 0, 0, 0)\<close> supervisor call, for every kernel and every state
  at entry, and the OS state afterwards is the one the kernel hands back for it.
\<close>

theorem C3_directive_iff_not_DEBUG:
  "calls (snd (disable_gdb DEBUG k m)) =
     calls (snd m) @ (if DEBUG \<noteq> 0 then [] else [ptrace_deny_attach])
   \<and> (DEBUG \<noteq> 0 \<longrightarrow> disable_gdb DEBUG k m = m)
   \<and> (DEBUG = 0 \<longrightarrow>
        os (snd (disable_gdb DEBUG k m)) =
          snd (svc k (os (snd m)) 0x80 ptrace_deny_attach_regs))"
  by (simp add: disable_gdb_calls disable_gdb_debug disable_gdb_os)

theorem C3_directive_witness:
  "(1::int) \<noteq> 0
   \<and> disable_gdb 1 answering_kernel (cpu0, world0 0) = (cpu0, world0 0)
   \<and> calls (snd (disable_gdb 0 answering_kernel (cpu0, world0 0))) = [ptrace_deny_attach]"
proof -
  have d: "(1::int) \<noteq> 0" by simp
  from C3_directive_iff_not_DEBUG [of 1 answering_kernel "(cpu0, world0 0)"] d
  have a: "disable_gdb 1 answering_kernel (cpu0, world0 0) = (cpu0, world0 0)"
    by blast
  from C3_directive_iff_not_DEBUG [of 0 answering_kernel "(cpu0, world0 0)"]
  have b: "calls (snd (disable_gdb 0 answering_kernel (cpu0, world0 0))) = [ptrace_deny_attach]"
    by (simp add: world0_def)
  from d a b show ?thesis by blast
qed

lemma disable_gdb_funpow_calls:
  "calls (snd ((disable_gdb DEBUG k ^^ n) m)) =
     calls (snd m) @ (if DEBUG \<noteq> 0 then [] else replicate n ptrace_deny_attach)"
proof (induction n)
  case 0
  show ?case by simp
next
  case (Suc n)
  have "calls (snd ((disable_gdb DEBUG k ^^ Suc n) m)) =
        calls (snd ((disable_gdb DEBUG k ^^ n) m)) @
          (if DEBUG \<noteq> 0 then [] else [ptrace_deny_attach])"
    by (simp add: disable_gdb_calls)
  also have "\<dots> = calls (snd m) @
      (if DEBUG \<noteq> 0 then [] else replicate (Suc n) ptrace_deny_attach)"
    by (simp add: Suc.IH replicate_append_same)
  finally show ?case .
qed

subsection \<open>On a kernel that may not return\<close>

lemma disable_gdb_partial_eq:
  "disable_gdb_partial DEBUG t (c, w) =
     (if DEBUG \<noteq> 0 then Some (c, w)
      else (case t (os w) 0x80 ptrace_deny_attach_regs of
              None \<Rightarrow> None
            | Some (c', s') \<Rightarrow>
                Some (c', \<lparr>os = s', calls = calls w @ [ptrace_deny_attach]\<rparr>)))"
  by (simp add: disable_gdb_partial_def ptrace_deny_attach_def ptrace_deny_attach_regs_def
      cpu_all_written split: option.split)

text \<open>On a kernel that returns from every call this is \<open>disable_gdb\<close>.\<close>

lemma disable_gdb_partial_returning:
  "disable_gdb_partial DEBUG (\<lambda>s i c. Some (svc k s i c)) m = Some (disable_gdb DEBUG k m)"
proof (cases m)
  case (Pair c w)
  show ?thesis
  proof (cases "DEBUG = 0")
    case True
    then show ?thesis
      by (simp add: Pair disable_gdb_partial_eq disable_gdb_release split: prod.split)
  next
    case False
    then show ?thesis
      by (simp add: Pair disable_gdb_partial_eq disable_gdb_debug)
  qed
qed






section \<open>\<^verbatim>\<open>isBeingDebugged_sysctl\<close> as a read-only query\<close>

lemma thread_steps_sequential:
  "run_threads h k [0, 0] ([At_entry info0], w) =
     ([Returned (fst (isBeingDebugged_sysctl h k info0 w))],
      snd (isBeingDebugged_sysctl h k info0 w))"
  by (simp add: isBeingDebugged_sysctl_def Let_def split: prod.split)

lemma isBeingDebugged_sysctl_args_read:
  "newp (isBeingDebugged_sysctl_args h k info0 s) = None
   \<and> newlen (isBeingDebugged_sysctl_args h k info0 s) = 0"
  by (simp add: isBeingDebugged_sysctl_args_def)

lemma isBeingDebugged_sysctl_os:
  assumes "sysctl_read_only k"
  shows "os (snd (isBeingDebugged_sysctl h k info0 w)) = os w"
  using assms isBeingDebugged_sysctl_args_read [of h k info0 "os w"]
  by (simp add: isBeingDebugged_sysctl_world sysctl_read_only_def)

lemma isBeingDebugged_sysctl_os_only:
  "os w = os w' \<Longrightarrow>
   fst (isBeingDebugged_sysctl h k info0 w) = fst (isBeingDebugged_sysctl h k info0 w')"
  by (simp add: isBeingDebugged_sysctl_result)

lemma thread_step_read_only:
  assumes ro: "sysctl_read_only k"
    and w: "os w' = os w"
    and t: "t = At_entry g \<or> t = At_sysctl (isBeingDebugged_sysctl_args h k g (os w))
            \<or> t = Returned (fst (isBeingDebugged_sysctl h k g w))"
  shows "os (snd (thread_step h k t w')) = os w
         \<and> (fst (thread_step h k t w') = At_entry g
            \<or> fst (thread_step h k t w') = At_sysctl (isBeingDebugged_sysctl_args h k g (os w))
            \<or> fst (thread_step h k t w') = Returned (fst (isBeingDebugged_sysctl h k g w)))"
proof -
  consider (entry) "t = At_entry g"
    | (mid) "t = At_sysctl (isBeingDebugged_sysctl_args h k g (os w))"
    | (ret) "t = Returned (fst (isBeingDebugged_sysctl h k g w))"
    using t by blast
  then show ?thesis
  proof cases
    case entry
    then show ?thesis by (simp add: w)
  next
    case mid
    have same: "snd (sysctl k (os w) (isBeingDebugged_sysctl_args h k g (os w))) = os w"
      using ro isBeingDebugged_sysctl_args_read [of h k g "os w"]
      by (simp add: sysctl_read_only_def)
    show ?thesis
      using same
      by (auto simp add: mid w isBeingDebugged_sysctl_result Let_def split: prod.split)
  next
    case ret
    then show ?thesis by (simp add: w)
  qed
qed

lemma run_threads_read_only:
  assumes ro: "sysctl_read_only k"
  shows "os w' = os w \<Longrightarrow> length ts = length gs \<Longrightarrow>
    (\<forall>i<length gs. ts ! i = At_entry (gs ! i)
        \<or> ts ! i = At_sysctl (isBeingDebugged_sysctl_args h k (gs ! i) (os w))
        \<or> ts ! i = Returned (fst (isBeingDebugged_sysctl h k (gs ! i) w))) \<Longrightarrow>
    os (snd (run_threads h k sched (ts, w'))) = os w
    \<and> length (fst (run_threads h k sched (ts, w'))) = length gs
    \<and> (\<forall>i<length gs. fst (run_threads h k sched (ts, w')) ! i = At_entry (gs ! i)
        \<or> fst (run_threads h k sched (ts, w')) ! i =
            At_sysctl (isBeingDebugged_sysctl_args h k (gs ! i) (os w))
        \<or> fst (run_threads h k sched (ts, w')) ! i =
            Returned (fst (isBeingDebugged_sysctl h k (gs ! i) w)))"
proof (induction sched arbitrary: ts w')
  case Nil
  then show ?case by simp
next
  case (Cons j sched)
  show ?case
  proof (cases "j < length ts")
    case False
    then show ?thesis
      using Cons.IH [OF Cons.prems] by simp
  next
    case True
    obtain t' w'' where st: "thread_step h k (ts ! j) w' = (t', w'')"
      by (cases "thread_step h k (ts ! j) w'")
    have j: "j < length gs" using True Cons.prems(2) by simp
    have tj: "ts ! j = At_entry (gs ! j)
        \<or> ts ! j = At_sysctl (isBeingDebugged_sysctl_args h k (gs ! j) (os w))
        \<or> ts ! j = Returned (fst (isBeingDebugged_sysctl h k (gs ! j) w))"
      using Cons.prems(3) j by blast
    from thread_step_read_only [OF ro Cons.prems(1) tj] st
    have os'': "os w'' = os w"
      and t': "t' = At_entry (gs ! j)
        \<or> t' = At_sysctl (isBeingDebugged_sysctl_args h k (gs ! j) (os w))
        \<or> t' = Returned (fst (isBeingDebugged_sysctl h k (gs ! j) w))"
      by simp_all
    have len: "length (ts[j := t']) = length gs"
      using Cons.prems(2) by simp
    have inv: "\<forall>i<length gs. ts[j := t'] ! i = At_entry (gs ! i)
        \<or> ts[j := t'] ! i = At_sysctl (isBeingDebugged_sysctl_args h k (gs ! i) (os w))
        \<or> ts[j := t'] ! i = Returned (fst (isBeingDebugged_sysctl h k (gs ! i) w))"
    proof (intro allI impI)
      fix i assume i: "i < length gs"
      show "ts[j := t'] ! i = At_entry (gs ! i)
        \<or> ts[j := t'] ! i = At_sysctl (isBeingDebugged_sysctl_args h k (gs ! i) (os w))
        \<or> ts[j := t'] ! i = Returned (fst (isBeingDebugged_sysctl h k (gs ! i) w))"
      proof (cases "i = j")
        case True
        then show ?thesis using t' j Cons.prems(2) by simp
      next
        case False
        then show ?thesis using Cons.prems(3) i by simp
      qed
    qed
    have "run_threads h k (j # sched) (ts, w') = run_threads h k sched (ts[j := t'], w'')"
      using True st by simp
    then show ?thesis
      using Cons.IH [OF os'' len inv] by simp
  qed
qed

text \<open>
  C8. The function asks two things of the OS, \<^verbatim>\<open>getpid\<close> and one \<^verbatim>\<open>sysctl\<close>
  whose \<^verbatim>\<open>newp\<close> is null and whose \<^verbatim>\<open>newlen\<close> is zero. On a kernel where such a
  call sets nothing, the OS state after the function is the OS state before it. The same
  holds for any number of invocations run in any interleaving of their OS calls (one
  after the other is one such interleaving): the OS state stays as it was, and every
  invocation that has returned has returned what it returns when it runs alone.
\<close>

theorem C8_read_only_query:
  "calls (snd (isBeingDebugged_sysctl h k info0 w)) =
     calls w @ [Call_getpid, Call_sysctl (isBeingDebugged_sysctl_args h k info0 (os w))]
   \<and> newp (isBeingDebugged_sysctl_args h k info0 (os w)) = None
   \<and> newlen (isBeingDebugged_sysctl_args h k info0 (os w)) = 0
   \<and> (sysctl_read_only k \<longrightarrow>
        os (snd (isBeingDebugged_sysctl h k info0 w)) = os w
        \<and> os (snd (run_threads h k sched (map At_entry gs, w))) = os w
        \<and> (\<forall>i<length gs. \<forall>b.
              fst (run_threads h k sched (map At_entry gs, w)) ! i = Returned b \<longrightarrow>
              b = fst (isBeingDebugged_sysctl h k (gs ! i) w)))"
proof -
  have log: "calls (snd (isBeingDebugged_sysctl h k info0 w)) =
     calls w @ [Call_getpid, Call_sysctl (isBeingDebugged_sysctl_args h k info0 (os w))]"
    by (simp add: isBeingDebugged_sysctl_world)
  note rd = isBeingDebugged_sysctl_args_read [of h k info0 "os w"]
  have conc: "os (snd (isBeingDebugged_sysctl h k info0 w)) = os w
        \<and> os (snd (run_threads h k sched (map At_entry gs, w))) = os w
        \<and> (\<forall>i<length gs. \<forall>b.
              fst (run_threads h k sched (map At_entry gs, w)) ! i = Returned b \<longrightarrow>
              b = fst (isBeingDebugged_sysctl h k (gs ! i) w))"
    if ro: "sysctl_read_only k"
  proof -
    have start: "\<forall>i<length gs. map At_entry gs ! i = At_entry (gs ! i)
        \<or> map At_entry gs ! i = At_sysctl (isBeingDebugged_sysctl_args h k (gs ! i) (os w))
        \<or> map At_entry gs ! i = Returned (fst (isBeingDebugged_sysctl h k (gs ! i) w))"
      by simp
    have len: "length (map At_entry gs) = length gs" by simp
    note inv = run_threads_read_only [OF ro refl len start, of sched]
    have fin: "b = fst (isBeingDebugged_sysctl h k (gs ! i) w)"
      if "i < length gs"
        and "fst (run_threads h k sched (map At_entry gs, w)) ! i = Returned b" for i b
      using inv that by auto
    from inv fin isBeingDebugged_sysctl_os [OF ro, of h info0 w] show ?thesis
      by blast
  qed
  from log rd conc show ?thesis by blast
qed

theorem C8_read_only_witness:
  "sysctl_read_only answering_kernel
   \<and> os (snd (isBeingDebugged_sysctl darwin_headers answering_kernel garbage_info
        (world0 0x800))) = 0x800
   \<and> os (snd (run_threads darwin_headers answering_kernel [0, 1, 0, 1]
        (map At_entry [garbage_info, garbage_info], world0 0x800))) = 0x800
   \<and> fst (run_threads darwin_headers answering_kernel [0, 1, 0, 1]
        (map At_entry [garbage_info, garbage_info], world0 0x800)) ! 1 = Returned True
   \<and> fst (isBeingDebugged_sysctl darwin_headers answering_kernel
        ([garbage_info, garbage_info] ! 1) (world0 0x800)) = True"
proof -
  have ro: "sysctl_read_only answering_kernel"
    by (simp add: sysctl_read_only_def answering_kernel_def)
  note c8 = C8_read_only_query [of darwin_headers answering_kernel garbage_info
      "world0 0x800" "[0, 1, 0, 1]" "[garbage_info, garbage_info]"]
  have w0: "os (world0 0x800) = 0x800" by (simp add: world0_def)
  have r1: "fst (run_threads darwin_headers answering_kernel [0, 1, 0, 1]
        (map At_entry [garbage_info, garbage_info], world0 0x800)) ! 1 = Returned True"
    by (simp add: answering_kernel_def world0_def darwin_headers_def
        isBeingDebugged_sysctl_args_def)
  have i1: "(1::nat) < length [garbage_info, garbage_info]" by simp
  from c8 ro w0 have a: "os (snd (isBeingDebugged_sysctl darwin_headers answering_kernel
      garbage_info (world0 0x800))) = 0x800"
    by simp
  from c8 ro w0 have b: "os (snd (run_threads darwin_headers answering_kernel [0, 1, 0, 1]
        (map At_entry [garbage_info, garbage_info], world0 0x800))) = 0x800"
    by simp
  from c8 ro i1 r1 have c: "fst (isBeingDebugged_sysctl darwin_headers answering_kernel
        ([garbage_info, garbage_info] ! 1) (world0 0x800)) = True"
    by metis
  from ro a b r1 c show ?thesis by blast
qed

section \<open>Platforms without the interfaces\<close>

text \<open>
  C4, as the claim states it, fails. \<open>failing_kernel\<close> is a platform without the two
  interfaces: it refuses every \<^verbatim>\<open>sysctl\<close> and does nothing at a supervisor call.
  \<^verbatim>\<open>isBeingDebugged_sysctl\<close> returns \<^verbatim>\<open>false\<close> there, but \<^verbatim>\<open>disable_gdb\<close> in a build
  with \<open>DEBUG\<close> false is not a no-op: it has loaded the registers and trapped into the
  kernel.
\<close>

theorem C4_release_not_noop_counterexample:
  "\<not> (disable_gdb 0 failing_kernel (cpu0, world0 0) = (cpu0, world0 0)
      \<and> fst (isBeingDebugged_sysctl darwin_headers failing_kernel garbage_info (world0 0))
          = False)"
proof -
  have "calls (snd (disable_gdb 0 failing_kernel (cpu0, world0 0))) = [ptrace_deny_attach]"
    by (simp add: disable_gdb_release world0_def)
  moreover have "calls (snd (cpu0, world0 0)) = []"
    by (simp add: world0_def)
  ultimately have "disable_gdb 0 failing_kernel (cpu0, world0 0) \<noteq> (cpu0, world0 0)"
    by auto
  then show ?thesis by simp
qed

text \<open>
  C4, amended. The code has no branch on the platform. On a platform whose
  \<^verbatim>\<open>sysctl\<close> refuses every query, \<^verbatim>\<open>isBeingDebugged_sysctl\<close> returns \<^verbatim>\<open>false\<close>.
  \<^verbatim>\<open>disable_gdb\<close> does nothing when \<open>DEBUG\<close> is true and only then: with \<open>DEBUG\<close>
  false it issues the supervisor call on every platform, whatever the kernel does with it,
  and the state it returns differs from the state it was called in.
\<close>

theorem C4_no_platform_fallback:
  "((\<forall>s a. ret (fst (sysctl k s a)) \<noteq> 0) \<longrightarrow>
      fst (isBeingDebugged_sysctl h k info0 w) = False)
   \<and> (DEBUG \<noteq> 0 \<longrightarrow> disable_gdb DEBUG k m = m)
   \<and> (DEBUG = 0 \<longrightarrow>
        calls (snd (disable_gdb DEBUG k m)) = calls (snd m) @ [ptrace_deny_attach]
        \<and> disable_gdb DEBUG k m \<noteq> m)"
proof -
  have q: "fst (isBeingDebugged_sysctl h k info0 w) = False"
    if "\<forall>s a. ret (fst (sysctl k s a)) \<noteq> 0"
    using that by (simp add: isBeingDebugged_sysctl_result Let_def)
  have r: "calls (snd (disable_gdb DEBUG k m)) = calls (snd m) @ [ptrace_deny_attach]"
    if "DEBUG = 0"
    using that by (simp add: disable_gdb_calls)
  have n: "disable_gdb DEBUG k m \<noteq> m" if "DEBUG = 0"
  proof
    assume "disable_gdb DEBUG k m = m"
    then have "calls (snd (disable_gdb DEBUG k m)) = calls (snd m)" by simp
    with r [OF that] show False by simp
  qed
  from q r n disable_gdb_debug [of DEBUG k m] show ?thesis by blast
qed

theorem C4_no_platform_fallback_witness:
  "(\<forall>s a. ret (fst (sysctl failing_kernel s a)) \<noteq> 0)
   \<and> fst (isBeingDebugged_sysctl darwin_headers failing_kernel garbage_info (world0 0))
       = False
   \<and> disable_gdb 1 failing_kernel (cpu0, world0 0) = (cpu0, world0 0)
   \<and> calls (snd (disable_gdb 0 failing_kernel (cpu0, world0 0))) = [ptrace_deny_attach]
   \<and> disable_gdb 0 failing_kernel (cpu0, world0 0) \<noteq> (cpu0, world0 0)"
proof -
  have l: "\<forall>s a. ret (fst (sysctl failing_kernel s a)) \<noteq> 0"
    by (simp add: failing_kernel_def)
  note dbg = C4_no_platform_fallback
    [of failing_kernel darwin_headers garbage_info "world0 0" 1 "(cpu0, world0 0)"]
  note rel = C4_no_platform_fallback
    [of failing_kernel darwin_headers garbage_info "world0 0" 0 "(cpu0, world0 0)"]
  from dbg l have a: "fst (isBeingDebugged_sysctl darwin_headers failing_kernel garbage_info
      (world0 0)) = False"
    by blast
  from dbg have b: "disable_gdb 1 failing_kernel (cpu0, world0 0) = (cpu0, world0 0)"
    by simp
  from rel have c: "calls (snd (disable_gdb 0 failing_kernel (cpu0, world0 0))) =
      [ptrace_deny_attach]"
    by (simp add: world0_def)
  from rel have d: "disable_gdb 0 failing_kernel (cpu0, world0 0) \<noteq> (cpu0, world0 0)"
    by simp
  from l a b c d show ?thesis by blast
qed

end
